theory Spec2Isabelle
  imports Main "HOL-Library.Word"
begin

section \<open>Strings, numbers and errors of the source language\<close>

text \<open>
  A string of the source language is a sequence of 16-bit code units; its \<open>length\<close>
  counts code units.
\<close>

type_synonym code_unit = "16 word"
type_synonym jsstring = "code_unit list"

definition LF :: code_unit where
  "LF = 0x0A"

definition CR :: code_unit where
  "CR = 0x0D"

text \<open>
  Every \<open>throw new Error(...)\<close> of the modelled code is one constructor, named after
  its message. \<open>TypeError\<close> is the runtime's error for reading a property of
  \<open>undefined\<close>.
\<close>

datatype error =
    PosNegative
  | EndNegative
  | EndSmallerThanPos
  | PosExceedsLength
  | EndExceedsLength
  | ContentHasNewline
  | TypeError

text \<open>
  The fields \<open>pos\<close> and \<open>end\<close> of a range and the arguments of its constructors have
  the type \<open>number\<close> of the source language, which the constructors accept as it is.
  A number is modelled as an integer, of either sign, or \<open>NaN\<close>; fractional and
  infinite numbers are left out. The operators follow the source language: every
  comparison with \<open>NaN\<close> is false, \<open>===\<close> is false at \<open>NaN\<close>, and a difference with
  \<open>NaN\<close> is \<open>NaN\<close>.
\<close>

datatype number = Integer int | NaN

fun number_lt :: "number \<Rightarrow> number \<Rightarrow> bool" where
  "number_lt (Integer a) (Integer b) = (a < b)"
| "number_lt _ _ = False"

definition number_gt :: "number \<Rightarrow> number \<Rightarrow> bool" where
  "number_gt a b = number_lt b a"

fun number_le :: "number \<Rightarrow> number \<Rightarrow> bool" where
  "number_le (Integer a) (Integer b) = (a \<le> b)"
| "number_le _ _ = False"

fun number_strictEquals :: "number \<Rightarrow> number \<Rightarrow> bool" where
  "number_strictEquals (Integer a) (Integer b) = (a = b)"
| "number_strictEquals _ _ = False"

fun number_minus :: "number \<Rightarrow> number \<Rightarrow> number" where
  "number_minus (Integer a) (Integer b) = Integer (a - b)"
| "number_minus _ _ = NaN"

text \<open>
  \<open>String.prototype.substring(start, end)\<close>: \<open>NaN\<close> counts as 0, both arguments are
  clamped to \<open>[0, length]\<close> and swapped when \<open>start > end\<close>. The one-argument form
  runs to the end of the string.
\<close>

definition clampIndex :: "jsstring \<Rightarrow> number \<Rightarrow> nat" where
  "clampIndex s n =
     (case n of
        NaN \<Rightarrow> 0
      | Integer i \<Rightarrow> nat (min (max i 0) (int (length s))))"

definition substring :: "jsstring \<Rightarrow> number \<Rightarrow> number \<Rightarrow> jsstring" where
  "substring s start stop =
     (let a = clampIndex s start;
          b = clampIndex s stop
      in take (max a b - min a b) (drop (min a b) s))"

definition substringFrom :: "jsstring \<Rightarrow> number \<Rightarrow> jsstring" where
  "substringFrom s start = drop (clampIndex s start) s"

text \<open>
  \<open>buffer[i]\<close>: the code unit at \<open>i\<close>, or \<open>undefined\<close> (here \<open>None\<close>) out of range.
\<close>

definition charAt :: "jsstring \<Rightarrow> int \<Rightarrow> code_unit option" where
  "charAt s i = (if 0 \<le> i \<and> i < int (length s) then Some (s ! nat i) else None)"


section \<open>TextRange (nodes/DocMemberSymbol.ts)\<close>

record TextRange =
  buffer :: jsstring
  pos :: number
  end' :: number

record ITextLocation =
  line :: int
  column :: int

definition validateBounds :: "TextRange \<Rightarrow> error option" where
  "validateBounds r =
     (if number_lt (pos r) (Integer 0) then Some PosNegative
      else if number_lt (end' r) (Integer 0) then Some EndNegative
      else if number_lt (end' r) (pos r) then Some EndSmallerThanPos
      else if number_gt (pos r) (Integer (int (length (buffer r)))) then Some PosExceedsLength
      else if number_gt (end' r) (Integer (int (length (buffer r)))) then Some EndExceedsLength
      else None)"

text \<open>The private constructor: the three fields are stored, then the bounds are validated.\<close>

definition new_TextRange :: "jsstring \<Rightarrow> number \<Rightarrow> number \<Rightarrow> error + TextRange" where
  "new_TextRange b p e =
     (let r = \<lparr>buffer = b, pos = p, end' = e\<rparr>
      in case validateBounds r of Some err \<Rightarrow> Inl err | None \<Rightarrow> Inr r)"

definition empty_TextRange :: "error + TextRange" where
  "empty_TextRange = new_TextRange [] (Integer 0) (Integer 0)"

definition fromString :: "jsstring \<Rightarrow> error + TextRange" where
  "fromString b = new_TextRange b (Integer 0) (Integer (int (length b)))"

definition fromStringRange :: "jsstring \<Rightarrow> number \<Rightarrow> number \<Rightarrow> error + TextRange" where
  "fromStringRange b p e = new_TextRange b p e"

definition length_TextRange :: "TextRange \<Rightarrow> number" where
  "length_TextRange r = number_minus (end' r) (pos r)"

definition getNewRange :: "TextRange \<Rightarrow> number \<Rightarrow> number \<Rightarrow> error + TextRange" where
  "getNewRange r p e = new_TextRange (buffer r) p e"

definition isEmpty :: "TextRange \<Rightarrow> bool" where
  "isEmpty r = number_strictEquals (pos r) (end' r)"

definition toString :: "TextRange \<Rightarrow> jsstring" where
  "toString r = substring (buffer r) (pos r) (end' r)"

definition getDebugDump :: "TextRange \<Rightarrow> jsstring \<Rightarrow> jsstring \<Rightarrow> jsstring" where
  "getDebugDump r posDelimiter endDelimiter =
     substring (buffer r) (Integer 0) (pos r) @ posDelimiter
       @ substring (buffer r) (pos r) (end' r) @ endDelimiter
       @ substringFrom (buffer r) (end' r)"

text \<open>
  The argument \<open>index\<close> of \<open>getLocation\<close> is documented as an integer offset and is
  an \<open>int\<close>. The \<open>while\<close> loop has its three mutable locals as arguments.
  A \<open>'\r'\<close> takes the \<open>continue\<close>; a \<open>'\n'\<close> starts a new line; anything else,
  including \<open>undefined\<close>, takes the final \<open>else\<close>.
\<close>

function getLocation_loop :: "jsstring \<Rightarrow> int \<Rightarrow> int \<Rightarrow> int \<Rightarrow> int \<Rightarrow> ITextLocation" where
  "getLocation_loop buf index currentIndex ln col =
     (if currentIndex < index then
        (if charAt buf currentIndex = Some CR then
           getLocation_loop buf index (currentIndex + 1) ln col
         else if charAt buf currentIndex = Some LF then
           getLocation_loop buf index (currentIndex + 1) (ln + 1) 1
         else
           getLocation_loop buf index (currentIndex + 1) ln (col + 1))
      else \<lparr>line = ln, column = col\<rparr>)"
  by pat_completeness auto
termination
  by (relation "measure (\<lambda>(buf, index, currentIndex, ln, col). nat (index - currentIndex))") auto

declare getLocation_loop.simps [simp del]

definition getLocation :: "TextRange \<Rightarrow> int \<Rightarrow> ITextLocation" where
  "getLocation r index =
     (if index < 0 \<or> index > int (length (buffer r)) then \<lparr>line = 0, column = 0\<rparr>
      else getLocation_loop (buffer r) index 0 1 1)"

text \<open>
  The ranges a program can hold: those returned by one of the three public
  constructors, and the static \<open>TextRange.empty\<close>.
\<close>

inductive constructed :: "TextRange \<Rightarrow> bool" where
  by_empty: "empty_TextRange = Inr r \<Longrightarrow> constructed r"
| by_fromString: "fromString b = Inr r \<Longrightarrow> constructed r"
| by_fromStringRange: "fromStringRange b p e = Inr r \<Longrightarrow> constructed r"
| by_getNewRange: "constructed r0 \<Longrightarrow> getNewRange r0 p e = Inr r \<Longrightarrow> constructed r"

text \<open>
  The invariant of a range in the specification's words,
  \<open>0 \<le> pos \<le> end \<le> length(buffer)\<close>, with the comparison of the source language.
\<close>

definition withinBounds :: "TextRange \<Rightarrow> bool" where
  "withinBounds r =
     (number_le (Integer 0) (pos r) \<and> number_le (pos r) (end' r)
      \<and> number_le (end' r) (Integer (int (length (buffer r)))))"


text \<open>
  What the claims say one character does to a location, in the specification's
  words: a line feed starts the next line at column 1, a carriage return advances
  nothing, any other character advances the column by one. The loop of the source
  is compared with it below.
\<close>

definition advance :: "ITextLocation \<Rightarrow> code_unit \<Rightarrow> ITextLocation" where
  "advance loc c =
     (if c = CR then loc
      else if c = LF then \<lparr>line = line loc + 1, column = 1\<rparr>
      else \<lparr>line = line loc, column = column loc + 1\<rparr>)"

text \<open>The part of a text after its last line feed (the whole text when it has none).\<close>

definition lastLine :: "jsstring \<Rightarrow> jsstring" where
  "lastLine s = rev (takeWhile (\<lambda>c. c \<noteq> LF) (rev s))"


section \<open>DocParamCollection (nodes/DocParamCollection.ts)\<close>

text \<open>
  Modelled from the spec: the class \<open>DocParamBlock\<close> is not among the sources. A
  parameter block is keyed by its \<open>parameterName\<close>; everything else of the object,
  its identity included, is the payload \<open>blockContent\<close> of an arbitrary type.
\<close>

record 'c DocParamBlock =
  parameterName :: jsstring
  blockContent :: 'c

text \<open>
  The private fields \<open>_blocks\<close> and \<open>_blocksByName\<close>; the latter is \<open>undefined\<close>
  (\<open>None\<close>) until the first \<open>add\<close>.
\<close>

record 'c DocParamCollection =
  blocks :: "'c DocParamBlock list"
  blocksByName :: "(jsstring \<rightharpoonup> 'c DocParamBlock) option"

definition new_DocParamCollection :: "'c DocParamCollection" where
  "new_DocParamCollection = \<lparr>blocks = [], blocksByName = None\<rparr>"

definition iterator :: "'c DocParamCollection \<Rightarrow> 'c DocParamBlock list" where
  "iterator c = blocks c"

definition count :: "'c DocParamCollection \<Rightarrow> nat" where
  "count c = length (blocks c)"

definition add :: "'c DocParamCollection \<Rightarrow> 'c DocParamBlock \<Rightarrow> 'c DocParamCollection" where
  "add c docParamBlock =
     (let bs = blocks c @ [docParamBlock];
          m = (case blocksByName c of None \<Rightarrow> Map.empty | Some m0 \<Rightarrow> m0);
          m' = (if m (parameterName docParamBlock) = None
                then m(parameterName docParamBlock \<mapsto> docParamBlock)
                else m)
      in \<lparr>blocks = bs, blocksByName = Some m'\<rparr>)"

definition clear :: "'c DocParamCollection \<Rightarrow> 'c DocParamCollection" where
  "clear c = \<lparr>blocks = take 0 (blocks c), blocksByName = None\<rparr>"

definition tryGetBlockByName :: "'c DocParamCollection \<Rightarrow> jsstring \<Rightarrow> 'c DocParamBlock option" where
  "tryGetBlockByName c name =
     (case blocksByName c of Some m \<Rightarrow> m name | None \<Rightarrow> None)"

text \<open>A sequence of \<open>add\<close> calls, one after the other.\<close>

definition addAll :: "'c DocParamCollection \<Rightarrow> 'c DocParamBlock list \<Rightarrow> 'c DocParamCollection" where
  "addAll c bs = foldl add c bs"


section \<open>DocPlainText (nodes/DocPlainText.ts) and DocMemberSymbol (nodes/DocMemberSymbol.ts)\<close>

text \<open>
  Modelled from the spec: the class \<open>DocExcerpt\<close> is not among the sources. An
  excerpt associates a semantic role (\<open>excerptKind\<close>) with the token sequence that
  backs a parsed node (\<open>content\<close>). The type of token sequences \<open>'ts\<close> and of
  declaration references \<open>'ref\<close> are parameters, and so is the function that renders
  a token sequence as a string.
\<close>

datatype ExcerptKind =
    PlainText
  | Spacing
  | DocMemberSymbol_LeftBracket
  | DocMemberSymbol_RightBracket

record 'ts DocExcerpt =
  excerptKind :: ExcerptKind
  content :: 'ts

text \<open>The nodes that occur as children of the two node classes modelled here.\<close>

datatype ('ts, 'ref) DocNode =
    ExcerptNode "'ts DocExcerpt"
  | DeclarationReferenceNode 'ref

text \<open>
  The constructor takes one of two parameter shapes, told apart by
  \<open>DocNode.isParsedParameters\<close>.
\<close>

datatype 'ts DocPlainText_parameters =
    IDocPlainTextParameters jsstring
  | IDocPlainTextParsedParameters 'ts

record 'ts DocPlainText =
  p_text :: "jsstring option"
  p_textExcerpt :: "'ts DocExcerpt option"

text \<open>\<open>/[\n]/.test(s)\<close>: some code unit of \<open>s\<close> is a line feed.\<close>

definition newlineCharacterRegExp_test :: "jsstring \<Rightarrow> bool" where
  "newlineCharacterRegExp_test s = list_ex (\<lambda>c. c = LF) s"

definition new_DocPlainText :: "'ts DocPlainText_parameters \<Rightarrow> error + 'ts DocPlainText" where
  "new_DocPlainText parameters =
     (case parameters of
        IDocPlainTextParsedParameters textExcerpt \<Rightarrow>
          Inr \<lparr>p_text = None,
               p_textExcerpt = Some \<lparr>excerptKind = PlainText, content = textExcerpt\<rparr>\<rparr>
      | IDocPlainTextParameters t \<Rightarrow>
          if newlineCharacterRegExp_test t then Inl ContentHasNewline
          else Inr \<lparr>p_text = Some t, p_textExcerpt = None\<rparr>)"

text \<open>
  The getter \<open>text\<close> writes the cache field, so it returns the node as well as the
  string. \<open>tokensToString\<close> is \<open>TokenSequence.toString\<close>. The non-null assertion on
  \<open>_textExcerpt\<close> is a \<open>TypeError\<close> at run time when both fields are \<open>undefined\<close>.
\<close>

definition get_text ::
  "('ts \<Rightarrow> jsstring) \<Rightarrow> 'ts DocPlainText \<Rightarrow> error + (jsstring \<times> 'ts DocPlainText)" where
  "get_text tokensToString node =
     (case p_text node of
        Some t \<Rightarrow> Inr (t, node)
      | None \<Rightarrow>
          (case p_textExcerpt node of
             None \<Rightarrow> Inl TypeError
           | Some excerpt \<Rightarrow>
               (let t = tokensToString (content excerpt)
                in Inr (t, node\<lparr>p_text := Some t\<rparr>))))"

definition textExcerpt :: "'ts DocPlainText \<Rightarrow> 'ts option" where
  "textExcerpt node =
     (case p_textExcerpt node of Some excerpt \<Rightarrow> Some (content excerpt) | None \<Rightarrow> None)"

definition DocPlainText_onGetChildNodes :: "'ts DocPlainText \<Rightarrow> ('ts, 'ref) DocNode option list" where
  "DocPlainText_onGetChildNodes node = [map_option ExcerptNode (p_textExcerpt node)]"

datatype ('ts, 'ref) DocMemberSymbol_parameters =
    IDocMemberSymbolParameters 'ref
  | IDocMemberSymbolParsedParameters 'ts "'ts option" 'ref 'ts

record ('ts, 'ref) DocMemberSymbol =
  p_leftBracketExcerpt :: "'ts DocExcerpt option"
  p_spacingAfterLeftBracketExcerpt :: "'ts DocExcerpt option"
  p_symbolReference :: 'ref
  p_rightBracketExcerpt :: "'ts DocExcerpt option"

definition new_DocMemberSymbol ::
  "('ts, 'ref) DocMemberSymbol_parameters \<Rightarrow> ('ts, 'ref) DocMemberSymbol" where
  "new_DocMemberSymbol parameters =
     (case parameters of
        IDocMemberSymbolParsedParameters leftBracket spacingAfterLeftBracket reference rightBracket \<Rightarrow>
          \<lparr>p_leftBracketExcerpt =
             Some \<lparr>excerptKind = DocMemberSymbol_LeftBracket, content = leftBracket\<rparr>,
           p_spacingAfterLeftBracketExcerpt =
             (case spacingAfterLeftBracket of
                Some spacing \<Rightarrow> Some \<lparr>excerptKind = Spacing, content = spacing\<rparr>
              | None \<Rightarrow> None),
           p_symbolReference = reference,
           p_rightBracketExcerpt =
             Some \<lparr>excerptKind = DocMemberSymbol_RightBracket, content = rightBracket\<rparr>\<rparr>
      | IDocMemberSymbolParameters reference \<Rightarrow>
          \<lparr>p_leftBracketExcerpt = None,
           p_spacingAfterLeftBracketExcerpt = None,
           p_symbolReference = reference,
           p_rightBracketExcerpt = None\<rparr>)"

definition symbolReference :: "('ts, 'ref) DocMemberSymbol \<Rightarrow> 'ref" where
  "symbolReference node = p_symbolReference node"

definition DocMemberSymbol_onGetChildNodes ::
  "('ts, 'ref) DocMemberSymbol \<Rightarrow> ('ts, 'ref) DocNode option list" where
  "DocMemberSymbol_onGetChildNodes node =
     [map_option ExcerptNode (p_leftBracketExcerpt node),
      map_option ExcerptNode (p_spacingAfterLeftBracketExcerpt node),
      Some (DeclarationReferenceNode (p_symbolReference node)),
      map_option ExcerptNode (p_rightBracketExcerpt node)]"

text \<open>
  Modelled from the spec: \<open>DocNode.getChildNodes\<close> is not among the sources. By the
  specification it is what generic tree walkers call, and its result is ordered and
  may contain holes for absent optional children; so it hands out what the node's
  own \<open>onGetChildNodes\<close> builds, which is passed as the first argument.
\<close>

definition getChildNodes :: "('n \<Rightarrow> ('ts, 'ref) DocNode option list) \<Rightarrow> 'n \<Rightarrow> ('ts, 'ref) DocNode option list" where
  "getChildNodes onGetChildNodes node = onGetChildNodes node"


section \<open>Facts about TextRange\<close>

lemma validateBounds_None_iff:
  "validateBounds r = None \<longleftrightarrow>
     \<not> (number_lt (pos r) (Integer 0) \<or> number_lt (end' r) (Integer 0)
        \<or> number_lt (end' r) (pos r)
        \<or> number_gt (pos r) (Integer (int (length (buffer r))))
        \<or> number_gt (end' r) (Integer (int (length (buffer r)))))"
  by (auto simp: validateBounds_def)

lemma new_TextRange_isl_iff:
  "isl (new_TextRange b p e) \<longleftrightarrow>
     number_lt p (Integer 0) \<or> number_lt e (Integer 0) \<or> number_lt e p
     \<or> number_gt p (Integer (int (length b))) \<or> number_gt e (Integer (int (length b)))"
proof -
  have "isl (new_TextRange b p e) \<longleftrightarrow> validateBounds \<lparr>buffer = b, pos = p, end' = e\<rparr> \<noteq> None"
    by (simp add: new_TextRange_def Let_def split: option.splits)
  then show ?thesis
    by (simp add: validateBounds_None_iff)
qed

lemma new_TextRange_Inr_iff:
  "new_TextRange b p e = Inr r \<longleftrightarrow>
     r = \<lparr>buffer = b, pos = p, end' = e\<rparr> \<and> \<not> isl (new_TextRange b p e)"
  by (auto simp: new_TextRange_def Let_def split: option.splits)

lemma new_TextRange_Integer_isl_iff:
  "isl (new_TextRange b (Integer i) (Integer j)) \<longleftrightarrow>
     i < 0 \<or> j < 0 \<or> j < i \<or> i > int (length b) \<or> j > int (length b)"
  by (simp add: new_TextRange_isl_iff number_gt_def)

lemma new_TextRange_Integer:
  assumes "0 \<le> i" "i \<le> j" "j \<le> int (length b)"
  shows "new_TextRange b (Integer i) (Integer j) = Inr \<lparr>buffer = b, pos = Integer i, end' = Integer j\<rparr>"
proof -
  have "\<not> isl (new_TextRange b (Integer i) (Integer j))"
    using assms by (simp add: new_TextRange_Integer_isl_iff)
  then show ?thesis
    by (simp add: new_TextRange_Inr_iff)
qed


lemma substring_valid:
  assumes "0 \<le> p" "p \<le> e" "e \<le> int (length s)"
  shows "substring s (Integer p) (Integer e) = take (nat (e - p)) (drop (nat p) s)"
proof -
  have a: "clampIndex s (Integer p) = nat p" and b: "clampIndex s (Integer e) = nat e"
    using assms by (simp_all add: clampIndex_def)
  have "nat p \<le> nat e"
    using assms by simp
  then have m: "max (nat p) (nat e) = nat e" "min (nat p) (nat e) = nat p"
    by (simp_all add: max_def min_def)
  have d: "nat e - nat p = nat (e - p)"
    using assms by (simp add: nat_diff_distrib)
  show ?thesis
    by (simp add: substring_def Let_def a b m d)
qed

text \<open>
  For a range that a program can hold and whose \<open>pos\<close> and \<open>end\<close> are integers, the
  bounds hold, the length is the difference and \<open>isEmpty\<close> tells whether the two
  are equal.
\<close>

lemma constructed_Integer_bounds:
  assumes "constructed r" and "pos r = Integer i" and "end' r = Integer j"
  shows "0 \<le> i \<and> i \<le> j \<and> j \<le> int (length (buffer r))
    \<and> withinBounds r
    \<and> length_TextRange r = Integer (j - i)
    \<and> (isEmpty r \<longleftrightarrow> i = j)"
proof -
  have v: "\<not> isl (new_TextRange (buffer r) (pos r) (end' r))"
    using assms(1)
    by (induction rule: constructed.induct)
      (auto simp: empty_TextRange_def fromString_def fromStringRange_def getNewRange_def
        new_TextRange_Inr_iff)
  then have "0 \<le> i \<and> i \<le> j \<and> j \<le> int (length (buffer r))"
    using assms(2,3) by (auto simp: new_TextRange_Integer_isl_iff)
  then show ?thesis
    using assms(2,3) by (simp add: withinBounds_def length_TextRange_def isEmpty_def)
qed


section \<open>TextRange: construction and invariant\<close>

text \<open>
  Claim C1. Constructing a range with \<open>fromStringRange\<close> (or \<open>getNewRange\<close>, which
  uses the buffer of the range it is called on) raises an error exactly when
  \<open>pos < 0\<close>, \<open>end < 0\<close>, \<open>end < pos\<close>, \<open>pos > length\<close> or \<open>end > length\<close>, for
  every pair of numbers and so for every pair of integers. For integers with
  \<open>0 \<le> pos \<le> end \<le> length\<close> it succeeds, the range holds the three values it was
  given, and \<open>toString\<close> is \<open>buffer.substring(pos, end)\<close>, which is the \<open>end - pos\<close>
  code units of the buffer from offset \<open>pos\<close> on.
\<close>

theorem C1_construction:
  "(isl (fromStringRange b p e) \<longleftrightarrow>
      number_lt p (Integer 0) \<or> number_lt e (Integer 0) \<or> number_lt e p
      \<or> number_gt p (Integer (int (length b))) \<or> number_gt e (Integer (int (length b))))
   \<and> (isl (getNewRange r0 p e) \<longleftrightarrow>
      number_lt p (Integer 0) \<or> number_lt e (Integer 0) \<or> number_lt e p
      \<or> number_gt p (Integer (int (length (buffer r0))))
      \<or> number_gt e (Integer (int (length (buffer r0)))))
   \<and> (isl (fromStringRange b (Integer i) (Integer j)) \<longleftrightarrow>
      i < 0 \<or> j < 0 \<or> j < i \<or> i > int (length b) \<or> j > int (length b))
   \<and> (isl (getNewRange r0 (Integer i) (Integer j)) \<longleftrightarrow>
      i < 0 \<or> j < 0 \<or> j < i \<or> i > int (length (buffer r0)) \<or> j > int (length (buffer r0)))
   \<and> (0 \<le> i \<and> i \<le> j \<and> j \<le> int (length b) \<longrightarrow>
        fromStringRange b (Integer i) (Integer j)
          = Inr \<lparr>buffer = b, pos = Integer i, end' = Integer j\<rparr>
        \<and> getNewRange \<lparr>buffer = b, pos = p0, end' = e0\<rparr> (Integer i) (Integer j)
          = Inr \<lparr>buffer = b, pos = Integer i, end' = Integer j\<rparr>
        \<and> toString \<lparr>buffer = b, pos = Integer i, end' = Integer j\<rparr>
          = substring b (Integer i) (Integer j)
        \<and> toString \<lparr>buffer = b, pos = Integer i, end' = Integer j\<rparr>
          = take (nat (j - i)) (drop (nat i) b))"
proof (intro conjI impI)
  show "isl (fromStringRange b p e) \<longleftrightarrow>
      number_lt p (Integer 0) \<or> number_lt e (Integer 0) \<or> number_lt e p
      \<or> number_gt p (Integer (int (length b))) \<or> number_gt e (Integer (int (length b)))"
    unfolding fromStringRange_def by (rule new_TextRange_isl_iff)
  show "isl (getNewRange r0 p e) \<longleftrightarrow>
      number_lt p (Integer 0) \<or> number_lt e (Integer 0) \<or> number_lt e p
      \<or> number_gt p (Integer (int (length (buffer r0))))
      \<or> number_gt e (Integer (int (length (buffer r0))))"
    unfolding getNewRange_def by (rule new_TextRange_isl_iff)
  show "isl (fromStringRange b (Integer i) (Integer j)) \<longleftrightarrow>
      i < 0 \<or> j < 0 \<or> j < i \<or> i > int (length b) \<or> j > int (length b)"
    unfolding fromStringRange_def by (rule new_TextRange_Integer_isl_iff)
  show "isl (getNewRange r0 (Integer i) (Integer j)) \<longleftrightarrow>
      i < 0 \<or> j < 0 \<or> j < i \<or> i > int (length (buffer r0)) \<or> j > int (length (buffer r0))"
    unfolding getNewRange_def by (rule new_TextRange_Integer_isl_iff)
next
  assume v: "0 \<le> i \<and> i \<le> j \<and> j \<le> int (length b)"
  then have c: "new_TextRange b (Integer i) (Integer j)
      = Inr \<lparr>buffer = b, pos = Integer i, end' = Integer j\<rparr>"
    by (simp add: new_TextRange_Integer)
  show "fromStringRange b (Integer i) (Integer j)
      = Inr \<lparr>buffer = b, pos = Integer i, end' = Integer j\<rparr>"
    using c by (simp add: fromStringRange_def)
  show "getNewRange \<lparr>buffer = b, pos = p0, end' = e0\<rparr> (Integer i) (Integer j)
      = Inr \<lparr>buffer = b, pos = Integer i, end' = Integer j\<rparr>"
    using c by (simp add: getNewRange_def)
  show "toString \<lparr>buffer = b, pos = Integer i, end' = Integer j\<rparr>
      = substring b (Integer i) (Integer j)"
    by (simp add: toString_def)
  show "toString \<lparr>buffer = b, pos = Integer i, end' = Integer j\<rparr>
      = take (nat (j - i)) (drop (nat i) b)"
    using v by (simp add: toString_def substring_valid)
qed

theorem C1_construction_witness:
  "(0::int) \<le> 1 \<and> (1::int) \<le> 3 \<and> (3::int) \<le> int (length [0x61, 0x62, 0x63, 0x64 :: code_unit])
   \<and> fromStringRange [0x61, 0x62, 0x63, 0x64] (Integer 1) (Integer 3)
       = Inr \<lparr>buffer = [0x61, 0x62, 0x63, 0x64], pos = Integer 1, end' = Integer 3\<rparr>
   \<and> toString \<lparr>buffer = [0x61, 0x62, 0x63, 0x64], pos = Integer 1, end' = Integer 3\<rparr>
       = [0x62, 0x63]
   \<and> isl (fromStringRange [0x61, 0x62, 0x63, 0x64] (Integer 3) (Integer 1))
   \<and> isl (getNewRange \<lparr>buffer = [0x61, 0x62, 0x63, 0x64], pos = Integer 0, end' = Integer 0\<rparr>
        (Integer 1) (Integer 5))
   \<and> \<not> isl (fromStringRange [0x61, 0x62, 0x63, 0x64] NaN NaN)"
  using C1_construction [of "[0x61, 0x62, 0x63, 0x64]" "Integer 1" "Integer 3"
      "\<lparr>buffer = [], pos = Integer 0, end' = Integer 0\<rparr>" 1 3 "Integer 0" "Integer 0"]
    C1_construction [of "[0x61, 0x62, 0x63, 0x64]" "Integer 3" "Integer 1"
      "\<lparr>buffer = [], pos = Integer 0, end' = Integer 0\<rparr>" 3 1 "Integer 0" "Integer 0"]
    C1_construction [of "[]" "Integer 1" "Integer 5"
      "\<lparr>buffer = [0x61, 0x62, 0x63, 0x64], pos = Integer 0, end' = Integer 0\<rparr>" 1 5
      "Integer 0" "Integer 0"]
    C1_construction [of "[0x61, 0x62, 0x63, 0x64]" NaN NaN
      "\<lparr>buffer = [], pos = Integer 0, end' = Integer 0\<rparr>" 0 0 "Integer 0" "Integer 0"]
  by (simp add: toString_def substring_def clampIndex_def number_gt_def)



section \<open>TextRange: line and column of an offset\<close>

text \<open>
  For an offset inside \<open>[0, length]\<close> the loop of \<open>getLocation\<close> is a left fold of
  \<open>advance\<close> over the code units before the offset, starting at line 1, column 1.
\<close>

lemma CR_neq_LF: "CR \<noteq> LF" "LF \<noteq> CR"
  by (simp_all add: CR_def LF_def)

lemma advance_simps:
  "advance loc CR = loc"
  "advance loc LF = \<lparr>line = line loc + 1, column = 1\<rparr>"
  "c \<noteq> CR \<Longrightarrow> c \<noteq> LF \<Longrightarrow> advance loc c = \<lparr>line = line loc, column = column loc + 1\<rparr>"
  by (simp_all add: advance_def CR_neq_LF)

lemma take_drop_step:
  assumes "n < length xs" "0 < k"
  shows "take k (drop n xs) = xs ! n # take (k - 1) (drop (Suc n) xs)"
proof -
  have "drop n xs = xs ! n # drop (Suc n) xs"
    using assms(1) by (simp add: Cons_nth_drop_Suc)
  then show ?thesis
    using assms(2) by (cases k) simp_all
qed

lemma getLocation_loop_foldl:
  "0 \<le> currentIndex \<Longrightarrow> currentIndex \<le> index \<Longrightarrow> index \<le> int (length buf) \<Longrightarrow>
   getLocation_loop buf index currentIndex ln col =
     foldl advance \<lparr>line = ln, column = col\<rparr>
       (take (nat (index - currentIndex)) (drop (nat currentIndex) buf))"
proof (induction buf index currentIndex ln col rule: getLocation_loop.induct)
  case (1 buf index currentIndex ln col)
  show ?case
  proof (cases "currentIndex < index")
    case False
    with "1.prems" have "index = currentIndex" by simp
    then show ?thesis
      by (simp add: getLocation_loop.simps [of buf currentIndex currentIndex])
  next
    case True
    let ?c = "buf ! nat currentIndex"
    have inr: "nat currentIndex < length buf"
      using True "1.prems" by simp
    have ch: "charAt buf currentIndex = Some ?c"
      using True "1.prems" by (simp add: charAt_def)
    have sl: "take (nat (index - currentIndex)) (drop (nat currentIndex) buf) =
        ?c # take (nat (index - (currentIndex + 1))) (drop (nat (currentIndex + 1)) buf)"
    proof -
      have "0 < nat (index - currentIndex)" using True by simp
      from take_drop_step [OF inr this]
      have "take (nat (index - currentIndex)) (drop (nat currentIndex) buf) =
        ?c # take (nat (index - currentIndex) - 1) (drop (Suc (nat currentIndex)) buf)" .
      moreover have "nat (index - currentIndex) - 1 = nat (index - (currentIndex + 1))"
        using True by simp
      moreover have "Suc (nat currentIndex) = nat (currentIndex + 1)"
        using "1.prems" by simp
      ultimately show ?thesis by simp
    qed
    have p: "0 \<le> currentIndex + 1" "currentIndex + 1 \<le> index"
      using True "1.prems" by simp_all
    show ?thesis
    proof (cases "?c = CR")
      case c: True
      have "getLocation_loop buf index currentIndex ln col =
            getLocation_loop buf index (currentIndex + 1) ln col"
        using True ch c by (subst getLocation_loop.simps) simp
      also have "\<dots> = foldl advance \<lparr>line = ln, column = col\<rparr>
           (take (nat (index - (currentIndex + 1))) (drop (nat (currentIndex + 1)) buf))"
        using "1.IH"(1) True ch c p "1.prems"(3) by simp
      finally show ?thesis
        using c by (simp add: sl advance_simps)
    next
      case nc: False
      show ?thesis
      proof (cases "?c = LF")
        case l: True
        have "getLocation_loop buf index currentIndex ln col =
              getLocation_loop buf index (currentIndex + 1) (ln + 1) 1"
          using True ch nc l by (subst getLocation_loop.simps) simp
        also have "\<dots> = foldl advance \<lparr>line = ln + 1, column = 1\<rparr>
             (take (nat (index - (currentIndex + 1))) (drop (nat (currentIndex + 1)) buf))"
          using "1.IH"(2) True ch nc l p "1.prems"(3) by simp
        finally show ?thesis
          using nc l by (simp add: sl advance_simps)
      next
        case nl: False
        have "getLocation_loop buf index currentIndex ln col =
              getLocation_loop buf index (currentIndex + 1) ln (col + 1)"
          using True ch nc nl by (subst getLocation_loop.simps) simp
        also have "\<dots> = foldl advance \<lparr>line = ln, column = col + 1\<rparr>
             (take (nat (index - (currentIndex + 1))) (drop (nat (currentIndex + 1)) buf))"
          using "1.IH"(3) True ch nc nl p "1.prems"(3) by simp
        finally show ?thesis
          using nc nl by (simp add: sl advance_simps)
      qed
    qed
  qed
qed

lemma getLocation_in_range:
  assumes "0 \<le> index" "index \<le> int (length (buffer r))"
  shows "getLocation r index = foldl advance \<lparr>line = 1, column = 1\<rparr> (take (nat index) (buffer r))"
  using assms getLocation_loop_foldl [of 0 index "buffer r" 1 1]
  by (simp add: getLocation_def)

lemma line_foldl_advance:
  "line (foldl advance loc s) = line loc + int (count_list s LF)"
proof (induction s arbitrary: loc)
  case Nil
  then show ?case by simp
next
  case (Cons c s)
  then show ?case
    by (cases "c = CR"; cases "c = LF") (simp_all add: advance_simps CR_neq_LF)
qed

lemma column_foldl_advance:
  "column (foldl advance loc s) =
     (if LF \<in> set s then 1 else column loc) + int (length (filter (\<lambda>c. c \<noteq> CR) (lastLine s)))"
proof (induction s rule: rev_induct)
  case Nil
  then show ?case by (simp add: lastLine_def)
next
  case (snoc x xs)
  then show ?case
    by (cases "x = CR"; cases "x = LF") (simp_all add: lastLine_def advance_simps CR_neq_LF)
qed

text \<open>
  Claim C3, as stated, asks for the location \<open>{line: 0, column: 0}\<close> from
  \<open>getLocation(0)\<close> on an empty buffer. The guard of \<open>getLocation\<close> lets every index
  in \<open>[0, length]\<close> through, the index \<open>length\<close> included, so on the empty buffer of
  \<open>TextRange.empty\<close> the index 0 is in range and the result is \<open>{line: 1, column: 1}\<close>.
\<close>

theorem C3_empty_buffer_counterexample:
  "empty_TextRange = Inr \<lparr>buffer = [], pos = Integer 0, end' = Integer 0\<rparr>
   \<and> getLocation \<lparr>buffer = [], pos = Integer 0, end' = Integer 0\<rparr> 0 = \<lparr>line = 1, column = 1\<rparr>
   \<and> getLocation \<lparr>buffer = [], pos = Integer 0, end' = Integer 0\<rparr> 0 \<noteq> \<lparr>line = 0, column = 0\<rparr>"
  by (simp add: empty_TextRange_def new_TextRange_Integer getLocation_def
      getLocation_loop.simps [of _ 0 0])

text \<open>
  Claim C3, amended. \<open>getLocation(index)\<close> returns \<open>{line: 0, column: 0}\<close> for every
  index outside \<open>[0, length(buffer)]\<close>; \<open>getLocation(0)\<close> on a range over an empty
  buffer returns \<open>{line: 1, column: 1}\<close>.
\<close>

theorem C3_getLocation_sentinel:
  "(index < 0 \<or> index > int (length (buffer r)) \<longrightarrow>
      getLocation r index = \<lparr>line = 0, column = 0\<rparr>)
   \<and> (buffer r = [] \<longrightarrow> getLocation r 0 = \<lparr>line = 1, column = 1\<rparr>)"
  by (simp add: getLocation_def getLocation_loop.simps [of _ 0 0])

theorem C3_getLocation_sentinel_witness:
  "(5::int) > int (length (buffer \<lparr>buffer = [0x61, 0x0A, 0x62], pos = Integer 0, end' = Integer 3\<rparr>))
   \<and> getLocation \<lparr>buffer = [0x61, 0x0A, 0x62], pos = Integer 0, end' = Integer 3\<rparr> 5 = \<lparr>line = 0, column = 0\<rparr>
   \<and> getLocation \<lparr>buffer = [0x61, 0x0A, 0x62], pos = Integer 0, end' = Integer 3\<rparr> (- 1) = \<lparr>line = 0, column = 0\<rparr>
   \<and> buffer \<lparr>buffer = [], pos = Integer 0, end' = Integer 0\<rparr> = []
   \<and> getLocation \<lparr>buffer = [], pos = Integer 0, end' = Integer 0\<rparr> 0 = \<lparr>line = 1, column = 1\<rparr>"
  using C3_getLocation_sentinel [of 5 "\<lparr>buffer = [0x61, 0x0A, 0x62], pos = Integer 0, end' = Integer 3\<rparr>"]
    C3_getLocation_sentinel [of "- 1" "\<lparr>buffer = [0x61, 0x0A, 0x62], pos = Integer 0, end' = Integer 3\<rparr>"]
    C3_getLocation_sentinel [of 0 "\<lparr>buffer = [], pos = Integer 0, end' = Integer 0\<rparr>"]
  by simp

text \<open>
  Claim C5. For \<open>0 \<le> index \<le> length(buffer)\<close> the coordinates are 1-based: the line
  is 1 plus the number of line feeds before the index, and the column is 1 plus the
  number of code units other than carriage returns between the last such line feed
  (or the start of the buffer) and the index. Equivalently, offset 0 is at line 1,
  column 1, and stepping over one code unit changes the location as \<open>advance\<close> says:
  a line feed goes to column 1 of the next line, a carriage return changes nothing,
  and any other code unit, a tab included, adds one to the column.
\<close>

theorem C5_getLocation_coordinates:
  assumes "0 \<le> index" and "index \<le> int (length (buffer r))"
  shows "line (getLocation r index) = 1 + int (count_list (take (nat index) (buffer r)) LF)
    \<and> column (getLocation r index) =
        1 + int (length (filter (\<lambda>c. c \<noteq> CR) (lastLine (take (nat index) (buffer r)))))
    \<and> getLocation r 0 = \<lparr>line = 1, column = 1\<rparr>
    \<and> (index < int (length (buffer r)) \<longrightarrow>
         getLocation r (index + 1) = advance (getLocation r index) (buffer r ! nat index))"
proof (intro conjI impI)
  let ?s = "take (nat index) (buffer r)"
  have g: "getLocation r index = foldl advance \<lparr>line = 1, column = 1\<rparr> ?s"
    using assms by (rule getLocation_in_range)
  show "line (getLocation r index) = 1 + int (count_list ?s LF)"
    by (simp add: g line_foldl_advance)
  show "column (getLocation r index) = 1 + int (length (filter (\<lambda>c. c \<noteq> CR) (lastLine ?s)))"
    by (simp add: g column_foldl_advance)
  show "getLocation r 0 = \<lparr>line = 1, column = 1\<rparr>"
    by (simp add: getLocation_in_range)
next
  assume lt: "index < int (length (buffer r))"
  have n: "nat index < length (buffer r)"
    using assms lt by simp
  have "getLocation r (index + 1) =
      foldl advance \<lparr>line = 1, column = 1\<rparr> (take (nat (index + 1)) (buffer r))"
    using assms lt by (simp add: getLocation_in_range)
  also have "nat (index + 1) = Suc (nat index)"
    using assms by simp
  also have "take (Suc (nat index)) (buffer r) = take (nat index) (buffer r) @ [buffer r ! nat index]"
    using n by (rule take_Suc_conv_app_nth)
  finally show "getLocation r (index + 1) = advance (getLocation r index) (buffer r ! nat index)"
    using assms by (simp add: getLocation_in_range)
qed

theorem C5_getLocation_coordinates_witness:
  "(0::int) \<le> 6
   \<and> (6::int) \<le> int (length (buffer \<lparr>buffer = [0x61, 0x62, 0x0D, 0x0A, 0x63, 0x09, 0x64], pos = Integer 0, end' = Integer 7\<rparr>))
   \<and> (6::int) < int (length (buffer \<lparr>buffer = [0x61, 0x62, 0x0D, 0x0A, 0x63, 0x09, 0x64], pos = Integer 0, end' = Integer 7\<rparr>))
   \<and> line (getLocation \<lparr>buffer = [0x61, 0x62, 0x0D, 0x0A, 0x63, 0x09, 0x64], pos = Integer 0, end' = Integer 7\<rparr> 6) = 2
   \<and> column (getLocation \<lparr>buffer = [0x61, 0x62, 0x0D, 0x0A, 0x63, 0x09, 0x64], pos = Integer 0, end' = Integer 7\<rparr> 6) = 3
   \<and> getLocation \<lparr>buffer = [0x61, 0x62, 0x0D, 0x0A, 0x63, 0x09, 0x64], pos = Integer 0, end' = Integer 7\<rparr> 7
       = \<lparr>line = 2, column = 4\<rparr>"
  using C5_getLocation_coordinates
    [of 6 "\<lparr>buffer = [0x61, 0x62, 0x0D, 0x0A, 0x63, 0x09, 0x64], pos = Integer 0, end' = Integer 7\<rparr>"]
  by (simp add: lastLine_def advance_def LF_def CR_def)


section \<open>DocParamCollection: lookup by name, order and clearing\<close>

text \<open>
  The name index agrees with a search of the ordered list for the first block of
  that name; \<open>add\<close> keeps it so.
\<close>

lemma find_snoc:
  "find P (xs @ [x]) = (case find P xs of None \<Rightarrow> (if P x then Some x else None) | Some y \<Rightarrow> Some y)"
  by (induction xs) simp_all

lemma blocks_add: "blocks (add c b) = blocks c @ [b]"
  by (simp add: add_def Let_def)

lemma tryGetBlockByName_add:
  assumes "\<And>n. tryGetBlockByName c n = find (\<lambda>x. parameterName x = n) (blocks c)"
  shows "tryGetBlockByName (add c b) name = find (\<lambda>x. parameterName x = name) (blocks (add c b))"
proof (cases "blocksByName c")
  case None
  then have "find (\<lambda>x. parameterName x = name) (blocks c) = None"
    using assms [of name] by (simp add: tryGetBlockByName_def)
  with None show ?thesis
    by (auto simp: tryGetBlockByName_def add_def Let_def find_snoc)
next
  case (Some m)
  then have m: "\<And>n. m n = find (\<lambda>x. parameterName x = n) (blocks c)"
    using assms by (simp add: tryGetBlockByName_def)
  show ?thesis
  proof (cases "m (parameterName b)")
    case None
    then show ?thesis
      using Some m [of name] m [of "parameterName b"]
      by (auto simp: tryGetBlockByName_def add_def Let_def find_snoc split: option.splits)
  next
    case (Some y)
    then show ?thesis
      using \<open>blocksByName c = Some m\<close> m [of name] m [of "parameterName b"]
      by (auto simp: tryGetBlockByName_def add_def Let_def find_snoc split: option.splits)
  qed
qed

lemma addAll_lookup:
  assumes "\<And>n. tryGetBlockByName c n = find (\<lambda>x. parameterName x = n) (blocks c)"
  shows "blocks (addAll c bs) = blocks c @ bs
    \<and> tryGetBlockByName (addAll c bs) name = find (\<lambda>x. parameterName x = name) (blocks c @ bs)"
  using assms
proof (induction bs arbitrary: c)
  case Nil
  then show ?case by (simp add: addAll_def)
next
  case (Cons b bs)
  have "\<And>n. tryGetBlockByName (add c b) n = find (\<lambda>x. parameterName x = n) (blocks (add c b))"
    using Cons.prems by (rule tryGetBlockByName_add)
  from Cons.IH [OF this] show ?case
    by (simp add: addAll_def blocks_add)
qed

lemma new_DocParamCollection_lookup:
  "tryGetBlockByName new_DocParamCollection n = find (\<lambda>x. parameterName x = n) (blocks new_DocParamCollection)"
  by (simp add: tryGetBlockByName_def new_DocParamCollection_def)

text \<open>
  Claim C2. After any sequence of \<open>add\<close> calls on a new collection,
  \<open>tryGetBlockByName(name)\<close> is the first block in the sequence whose
  \<open>parameterName\<close> is \<open>name\<close> (so a block is returned exactly when no earlier block
  has its name, and later blocks of the same name are never returned), \<open>count\<close> is
  the number of blocks added, duplicates included, and the \<open>blocks\<close> array and the
  iterator yield the blocks in insertion order.
\<close>

theorem C2_first_added_wins:
  "tryGetBlockByName (addAll new_DocParamCollection bs) name = find (\<lambda>b. parameterName b = name) bs
   \<and> (\<forall>b. tryGetBlockByName (addAll new_DocParamCollection bs) name = Some b \<longleftrightarrow>
        (\<exists>i < length bs. bs ! i = b \<and> parameterName b = name
           \<and> (\<forall>j < i. parameterName (bs ! j) \<noteq> name)))
   \<and> count (addAll new_DocParamCollection bs) = length bs
   \<and> blocks (addAll new_DocParamCollection bs) = bs
   \<and> iterator (addAll new_DocParamCollection bs) = bs"
proof -
  have a: "blocks (addAll new_DocParamCollection bs) = blocks new_DocParamCollection @ bs
    \<and> tryGetBlockByName (addAll new_DocParamCollection bs) name =
       find (\<lambda>x. parameterName x = name) (blocks new_DocParamCollection @ bs)"
    by (rule addAll_lookup) (rule new_DocParamCollection_lookup)
  have e: "blocks (new_DocParamCollection :: 'a DocParamCollection) = []"
    by (simp add: new_DocParamCollection_def)
  have b: "blocks (addAll new_DocParamCollection bs) = bs"
    using a by (simp add: e)
  have f: "tryGetBlockByName (addAll new_DocParamCollection bs) name = find (\<lambda>b. parameterName b = name) bs"
    using a by (simp add: e)
  have g: "\<forall>b. find (\<lambda>b. parameterName b = name) bs = Some b \<longleftrightarrow>
        (\<exists>i < length bs. bs ! i = b \<and> parameterName b = name
           \<and> (\<forall>j < i. parameterName (bs ! j) \<noteq> name))"
    by (auto simp: find_Some_iff)
  show ?thesis
    using b f g by (simp add: count_def iterator_def)
qed

theorem C2_first_added_wins_witness:
  "tryGetBlockByName
     (addAll new_DocParamCollection
        [\<lparr>parameterName = [0x78], blockContent = 1 :: nat\<rparr>,
         \<lparr>parameterName = [0x79], blockContent = 2\<rparr>,
         \<lparr>parameterName = [0x78], blockContent = 3\<rparr>]) [0x78]
     = Some \<lparr>parameterName = [0x78], blockContent = 1\<rparr>
   \<and> count (addAll new_DocParamCollection
        [\<lparr>parameterName = [0x78], blockContent = 1 :: nat\<rparr>,
         \<lparr>parameterName = [0x79], blockContent = 2\<rparr>,
         \<lparr>parameterName = [0x78], blockContent = 3\<rparr>]) = 3"
  using C2_first_added_wins
    [of "[\<lparr>parameterName = [0x78], blockContent = 1 :: nat\<rparr>,
         \<lparr>parameterName = [0x79], blockContent = 2\<rparr>,
         \<lparr>parameterName = [0x78], blockContent = 3\<rparr>]" "[0x78]"]
  by simp

text \<open>
  Claim C9. \<open>clear()\<close> puts a collection back into the state of a newly constructed
  one: \<open>count\<close> is 0, \<open>blocks\<close> and the iteration are empty, the name index is
  discarded so that \<open>tryGetBlockByName\<close> returns \<open>undefined\<close> for every name, and
  what is added afterwards behaves as on a new collection.
\<close>

theorem C9_clear:
  "clear c = new_DocParamCollection
   \<and> count (clear c) = 0
   \<and> blocks (clear c) = []
   \<and> iterator (clear c) = []
   \<and> blocksByName (clear c) = None
   \<and> tryGetBlockByName (clear c) name = None
   \<and> add (clear c) b = add new_DocParamCollection b
   \<and> addAll (clear c) bs = addAll new_DocParamCollection bs"
  by (simp add: clear_def new_DocParamCollection_def count_def iterator_def tryGetBlockByName_def)


section \<open>DocPlainText and DocMemberSymbol\<close>

lemma newlineCharacterRegExp_test_iff: "newlineCharacterRegExp_test s \<longleftrightarrow> LF \<in> set s"
  by (auto simp: newlineCharacterRegExp_test_def list_ex_iff)

lemma new_DocPlainText_literal:
  "new_DocPlainText (IDocPlainTextParameters s) =
     (if LF \<in> set s then Inl ContentHasNewline else Inr \<lparr>p_text = Some s, p_textExcerpt = None\<rparr>)"
  by (simp add: new_DocPlainText_def newlineCharacterRegExp_test_iff)

lemma get_text_literal:
  "get_text f \<lparr>p_text = Some s, p_textExcerpt = x\<rparr> = Inr (s, \<lparr>p_text = Some s, p_textExcerpt = x\<rparr>)"
  by (simp add: get_text_def)

text \<open>
  Claim C4. Constructing a \<open>DocPlainText\<close> from literal parameters raises an error
  if the text contains a line feed; for a text without one it succeeds, and the
  \<open>text\<close> getter returns the supplied string (leaving the node as it is).
\<close>

theorem C4_literal_construction:
  "(LF \<in> set s \<longrightarrow>
        (new_DocPlainText (IDocPlainTextParameters s) :: error + 'ts DocPlainText) = Inl ContentHasNewline)
   \<and> (LF \<notin> set s \<longrightarrow>
        (new_DocPlainText (IDocPlainTextParameters s) :: error + 'ts DocPlainText)
          = Inr \<lparr>p_text = Some s, p_textExcerpt = None\<rparr>
        \<and> get_text (tokensToString :: 'ts \<Rightarrow> jsstring) \<lparr>p_text = Some s, p_textExcerpt = None\<rparr>
            = Inr (s, \<lparr>p_text = Some s, p_textExcerpt = None\<rparr>))"
  by (simp add: new_DocPlainText_literal get_text_literal)

theorem C4_literal_construction_witness:
  "LF \<in> set [0x61, 0x0A, 0x62]
   \<and> new_DocPlainText (IDocPlainTextParameters [0x61, 0x0A, 0x62])
        = (Inl ContentHasNewline :: error + jsstring list DocPlainText)
   \<and> LF \<notin> set [0x61, 0x20, 0x62]
   \<and> new_DocPlainText (IDocPlainTextParameters [0x61, 0x20, 0x62])
        = (Inr \<lparr>p_text = Some [0x61, 0x20, 0x62], p_textExcerpt = None\<rparr> :: error + jsstring list DocPlainText)
   \<and> get_text concat \<lparr>p_text = Some [0x61, 0x20, 0x62], p_textExcerpt = None\<rparr>
        = Inr ([0x61, 0x20, 0x62], \<lparr>p_text = Some [0x61, 0x20, 0x62], p_textExcerpt = None\<rparr>)"
  using C4_literal_construction [of "[0x61, 0x0A, 0x62]" concat]
    C4_literal_construction [of "[0x61, 0x20, 0x62]" concat]
  by (simp add: LF_def)

text \<open>
  Claim C10. Only the line feed is rejected: for a text that contains a carriage
  return and no line feed the regular expression does not match, construction
  succeeds, and the \<open>text\<close> getter returns the string unchanged, carriage return
  included.
\<close>

theorem C10_carriage_return_accepted:
  assumes "CR \<in> set s" and "LF \<notin> set s"
  shows "\<not> newlineCharacterRegExp_test s
    \<and> (new_DocPlainText (IDocPlainTextParameters s) :: error + 'ts DocPlainText)
         = Inr \<lparr>p_text = Some s, p_textExcerpt = None\<rparr>
    \<and> get_text (tokensToString :: 'ts \<Rightarrow> jsstring) \<lparr>p_text = Some s, p_textExcerpt = None\<rparr>
         = Inr (s, \<lparr>p_text = Some s, p_textExcerpt = None\<rparr>)"
  using assms
  by (simp add: new_DocPlainText_literal get_text_literal newlineCharacterRegExp_test_iff)

theorem C10_carriage_return_accepted_witness:
  "CR \<in> set [0x61, 0x0D, 0x62] \<and> LF \<notin> set [0x61, 0x0D, 0x62]
   \<and> new_DocPlainText (IDocPlainTextParameters [0x61, 0x0D, 0x62])
        = (Inr \<lparr>p_text = Some [0x61, 0x0D, 0x62], p_textExcerpt = None\<rparr> :: error + jsstring list DocPlainText)
   \<and> get_text concat
          (\<lparr>p_text = Some [0x61, 0x0D, 0x62], p_textExcerpt = None\<rparr> :: jsstring list DocPlainText)
        = Inr ([0x61, 0x0D, 0x62], \<lparr>p_text = Some [0x61, 0x0D, 0x62], p_textExcerpt = None\<rparr>)"
proof -
  have h1: "CR \<in> set [0x61, 0x0D, 0x62]" by (simp add: CR_def)
  have h2: "LF \<notin> set [0x61, 0x0D, 0x62]" by (simp add: LF_def)
  show ?thesis
    using h1 h2 C10_carriage_return_accepted [OF h1 h2, of concat] by simp
qed

text \<open>
  Claim C6. A \<open>DocPlainText\<close> constructed from parsed parameters holds the excerpt
  and no text. The first access of \<open>text\<close> returns the string of the excerpt's token
  sequence and stores it in the node; on the node so updated every later access
  returns the stored string, whatever function would render the tokens, so nothing
  is computed again. The \<open>textExcerpt\<close> getter returns the token sequence for a
  parsed node, before and after the first access of \<open>text\<close>, and \<open>undefined\<close> for a
  node constructed from a literal.
\<close>

theorem C6_parsed_text:
  "new_DocPlainText (IDocPlainTextParsedParameters (ts :: 'ts))
      = Inr \<lparr>p_text = None, p_textExcerpt = Some \<lparr>excerptKind = PlainText, content = ts\<rparr>\<rparr>
   \<and> get_text tokensToString
        \<lparr>p_text = None, p_textExcerpt = Some \<lparr>excerptKind = PlainText, content = ts\<rparr>\<rparr>
      = Inr (tokensToString ts,
             \<lparr>p_text = Some (tokensToString ts),
              p_textExcerpt = Some \<lparr>excerptKind = PlainText, content = ts\<rparr>\<rparr>)
   \<and> get_text (anyToString :: 'ts \<Rightarrow> jsstring)
        \<lparr>p_text = Some (tokensToString ts),
         p_textExcerpt = Some \<lparr>excerptKind = PlainText, content = ts\<rparr>\<rparr>
      = Inr (tokensToString ts,
             \<lparr>p_text = Some (tokensToString ts),
              p_textExcerpt = Some \<lparr>excerptKind = PlainText, content = ts\<rparr>\<rparr>)
   \<and> textExcerpt \<lparr>p_text = None, p_textExcerpt = Some \<lparr>excerptKind = PlainText, content = ts\<rparr>\<rparr>
      = Some ts
   \<and> textExcerpt \<lparr>p_text = Some (tokensToString ts),
                   p_textExcerpt = Some \<lparr>excerptKind = PlainText, content = ts\<rparr>\<rparr>
      = Some ts
   \<and> (\<forall>node :: 'ts DocPlainText.
         new_DocPlainText (IDocPlainTextParameters s) = Inr node \<longrightarrow> textExcerpt node = None)"
  by (auto simp: new_DocPlainText_def get_text_def textExcerpt_def Let_def split: if_splits)

theorem C6_parsed_text_witness:
  "new_DocPlainText (IDocPlainTextParameters [0x61, 0x62])
     = (Inr \<lparr>p_text = Some [0x61, 0x62], p_textExcerpt = None\<rparr> :: error + jsstring list DocPlainText)
   \<and> textExcerpt (\<lparr>p_text = Some [0x61, 0x62], p_textExcerpt = None\<rparr> :: jsstring list DocPlainText) = None
   \<and> get_text concat
        \<lparr>p_text = None, p_textExcerpt = Some \<lparr>excerptKind = PlainText, content = [[0x61], [0x20, 0x62]]\<rparr>\<rparr>
      = Inr ([0x61, 0x20, 0x62],
             \<lparr>p_text = Some [0x61, 0x20, 0x62],
              p_textExcerpt = Some \<lparr>excerptKind = PlainText, content = [[0x61], [0x20, 0x62]]\<rparr>\<rparr>)"
proof -
  have c: "new_DocPlainText (IDocPlainTextParameters [0x61, 0x62])
     = (Inr \<lparr>p_text = Some [0x61, 0x62], p_textExcerpt = None\<rparr> :: error + jsstring list DocPlainText)"
    by (simp add: new_DocPlainText_def newlineCharacterRegExp_test_def LF_def)
  show ?thesis
    using c C6_parsed_text [of "[[0x61], [0x20, 0x62]] :: jsstring list" concat concat "[0x61, 0x62]"]
    by simp
qed

text \<open>
  Claim C8. The children of a \<open>DocMemberSymbol\<close> are always four entries in the order
  left bracket, spacing after the left bracket, symbol reference, right bracket; the
  spacing entry is \<open>undefined\<close> when no spacing was parsed, and the three excerpt
  entries are \<open>undefined\<close> for a node constructed from a literal reference. The
  single child entry of a \<open>DocPlainText\<close> constructed from a literal is \<open>undefined\<close>.
  \<open>getChildNodes\<close> hands these sequences out with their holes.
\<close>

theorem C8_child_nodes:
  "DocMemberSymbol_onGetChildNodes
      (new_DocMemberSymbol
         (IDocMemberSymbolParsedParameters (leftBracket :: 'ts) spacing (reference :: 'ref) rightBracket))
    = [Some (ExcerptNode \<lparr>excerptKind = DocMemberSymbol_LeftBracket, content = leftBracket\<rparr>),
       (case spacing of
          None \<Rightarrow> None
        | Some sp \<Rightarrow> Some (ExcerptNode \<lparr>excerptKind = Spacing, content = sp\<rparr>)),
       Some (DeclarationReferenceNode reference),
       Some (ExcerptNode \<lparr>excerptKind = DocMemberSymbol_RightBracket, content = rightBracket\<rparr>)]
   \<and> DocMemberSymbol_onGetChildNodes (new_DocMemberSymbol (IDocMemberSymbolParameters reference))
    = [None, None, Some (DeclarationReferenceNode reference), None]
   \<and> getChildNodes DocMemberSymbol_onGetChildNodes
        (new_DocMemberSymbol (parameters :: ('ts, 'ref) DocMemberSymbol_parameters))
    = DocMemberSymbol_onGetChildNodes (new_DocMemberSymbol parameters)
   \<and> length (getChildNodes DocMemberSymbol_onGetChildNodes (new_DocMemberSymbol parameters)) = 4
   \<and> (\<forall>node :: 'ts DocPlainText.
         new_DocPlainText (IDocPlainTextParameters s) = Inr node \<longrightarrow>
           DocPlainText_onGetChildNodes node = [None :: ('ts, 'ref) DocNode option]
           \<and> getChildNodes DocPlainText_onGetChildNodes node = [None :: ('ts, 'ref) DocNode option])"
  by (auto simp: new_DocMemberSymbol_def DocMemberSymbol_onGetChildNodes_def getChildNodes_def
      new_DocPlainText_def DocPlainText_onGetChildNodes_def split: option.splits if_splits)

theorem C8_child_nodes_witness:
  "new_DocPlainText (IDocPlainTextParameters [0x61, 0x62])
     = (Inr \<lparr>p_text = Some [0x61, 0x62], p_textExcerpt = None\<rparr> :: error + jsstring list DocPlainText)
   \<and> getChildNodes DocPlainText_onGetChildNodes
        (\<lparr>p_text = Some [0x61, 0x62], p_textExcerpt = None\<rparr> :: jsstring list DocPlainText)
      = [None :: (jsstring list, nat) DocNode option]
   \<and> getChildNodes DocMemberSymbol_onGetChildNodes
        (new_DocMemberSymbol (IDocMemberSymbolParsedParameters [[0x5B]] None (7::nat) [[0x5D]]))
      = [Some (ExcerptNode \<lparr>excerptKind = DocMemberSymbol_LeftBracket, content = [[0x5B]]\<rparr>),
         None,
         Some (DeclarationReferenceNode 7),
         Some (ExcerptNode \<lparr>excerptKind = DocMemberSymbol_RightBracket, content = [[0x5D :: code_unit]]\<rparr>)]"
proof -
  have c: "new_DocPlainText (IDocPlainTextParameters [0x61, 0x62])
     = (Inr \<lparr>p_text = Some [0x61, 0x62], p_textExcerpt = None\<rparr> :: error + jsstring list DocPlainText)"
    by (simp add: new_DocPlainText_def newlineCharacterRegExp_test_def LF_def)
  show ?thesis
    using c C8_child_nodes [where ?'ts = "jsstring list" and ?'ref = nat,
        of "[[0x5B]]" None 7 "[[0x5D]]"
        "IDocMemberSymbolParsedParameters [[0x5B]] None 7 [[0x5D]]" "[0x61, 0x62]"]
    by auto
qed

end
